theory Spec2Isabelle
  imports Main
begin

section \<open>The practice timer: data model\<close>

text \<open>
  The development embeds the \<open>useTimer\<close> hook (the copy with persisted same-day progress)
  together with the TypeScript interfaces it works on. JavaScript numbers are modelled
  as mathematical integers: \<open>Date.now()\<close> yields whole milliseconds and the settings are
  whole minutes and counts.
\<close>

record TimerSettings =
  workDuration :: int
  breakDuration :: int
  intervals :: int
  notificationVolume :: int
  notificationSound :: string
  beepCount :: int

record TimerState =
  timeLeft :: int
  isRunning :: bool
  isPaused :: bool
  currentInterval :: int
  isWorkSession :: bool
  settings :: TimerSettings

text \<open>
  The object stored under the progress key, \<open>{ currentInterval, lastDate }\<close>. The first
  field is called \<open>progressInterval\<close> here, since \<open>currentInterval\<close> already names the
  field of \<open>TimerState\<close>.
\<close>

record Progress =
  progressInterval :: int
  lastDate :: string

text \<open>
  \<open>Partial<TimerSettings>\<close>: every field may be absent.
\<close>

record PartialSettings =
  workDuration_opt :: "int option"
  breakDuration_opt :: "int option"
  intervals_opt :: "int option"
  notificationVolume_opt :: "int option"
  notificationSound_opt :: "string option"
  beepCount_opt :: "int option"

text \<open>
  The text held by a \<open>localStorage\<close> item, by what the hook's two tests do with it:
  the empty string is falsy, so the guards \<open>if (savedSettings && ...)\<close> and
  \<open>if (savedProgress)\<close> treat it like a missing item; on a non-empty text outside the
  JSON grammar \<open>JSON.parse\<close> throws a \<open>SyntaxError\<close>; otherwise the text is the encoding
  of a value, as \<open>JSON.stringify\<close> writes it. (Well-formed JSON of another shape than
  the one the hook writes is outside this model.) A missing item, for which \<open>getItem\<close>
  returns \<open>null\<close>, is \<open>None\<close> in the store.
\<close>

datatype 'a item = EmptyText | Malformed | Encoded 'a

record LocalStorage =
  settingsItem :: "TimerSettings item option"
  versionItem :: "string option"
  progressItem :: "Progress item option"

datatype error = SyntaxError

text \<open>
  Calls the hook makes to its collaborators, in the order it makes them.
\<close>

datatype call =
    ShowNotification string string
  | SaveProgress int
  | RequestWakeLock
  | ReleaseWakeLock

text \<open>
  One instance of the hook: the React state, the refs the hook reads and writes, the
  store, and the calls made so far.
\<close>

record Engine =
  state :: TimerState
  startTimeRef :: "int option"
  lastUpdateRef :: "int option"
  expectedEndTimeRef :: "int option"
  storage :: LocalStorage
  trace :: "call list"

datatype Status = Idle | Running | Paused

text \<open>
  The status shown by the display: \<open>isRunning ? 'Running' : isPaused ? 'Paused' : 'Ready'\<close>.
\<close>

definition status :: "TimerState \<Rightarrow> Status" where
  "status s = (if isRunning s then Running else if isPaused s then Paused else Idle)"

section \<open>Constants and arithmetic helpers\<close>

definition defaultSettings :: TimerSettings where
  "defaultSettings =
     \<lparr> workDuration = 20, breakDuration = 5, intervals = 6,
       notificationVolume = 50, notificationSound = ''bell'', beepCount = 3 \<rparr>"

definition CURRENT_VERSION :: string where
  "CURRENT_VERSION = ''2.0''"

text \<open>
  \<open>Math.ceil(a / b)\<close> on integers with a positive divisor; \<open>div\<close> on \<open>int\<close> rounds down.
\<close>

definition ceil_div :: "int \<Rightarrow> int \<Rightarrow> int" where
  "ceil_div a b = - ((- a) div b)"

text \<open>
  Decimal rendering of a number inside a template literal.
\<close>

function string_of_nat :: "nat \<Rightarrow> string" where
  "string_of_nat n =
     (if n < 10 then [char_of (48 + n)]
      else string_of_nat (n div 10) @ [char_of (48 + n mod 10)])"
  by pat_completeness auto
termination
  by (relation "measure id") auto

declare string_of_nat.simps [simp del]

definition string_of_int :: "int \<Rightarrow> string" where
  "string_of_int i =
     (if i < 0 then CHR ''-'' # string_of_nat (nat (- i)) else string_of_nat (nat i))"

section \<open>Collaborators\<close>

definition requestWakeLock :: "Engine \<Rightarrow> Engine" where
  "requestWakeLock eng = eng\<lparr>trace := trace eng @ [RequestWakeLock]\<rparr>"

definition releaseWakeLock :: "Engine \<Rightarrow> Engine" where
  "releaseWakeLock eng = eng\<lparr>trace := trace eng @ [ReleaseWakeLock]\<rparr>"

text \<open>
  \<open>saveProgress\<close> reads the calendar date (\<open>new Date().toDateString()\<close>, the argument
  \<open>today\<close>) and overwrites the progress item.
\<close>

definition saveProgress :: "string \<Rightarrow> int \<Rightarrow> Engine \<Rightarrow> Engine" where
  "saveProgress today n eng =
     eng\<lparr> storage := (storage eng)
             \<lparr>progressItem := Some (Encoded \<lparr>progressInterval = n, lastDate = today\<rparr>)\<rparr>,
          trace := trace eng @ [SaveProgress n] \<rparr>"

definition showNotification :: "string \<Rightarrow> string \<Rightarrow> Engine \<Rightarrow> Engine" where
  "showNotification title body eng = eng\<lparr>trace := trace eng @ [ShowNotification title body]\<rparr>"

section \<open>Construction\<close>

text \<open>
  The initialiser passed to \<open>useState\<close>. An exception of \<open>JSON.parse\<close> leaves it, so the
  result is a sum: the exception alone (without the store, which the initialiser may
  already have written to), or the instance with the store as the initialiser left it.
\<close>

definition useTimer_init :: "LocalStorage \<Rightarrow> string \<Rightarrow> error + Engine" where
  "useTimer_init ls today =
     (let savedVersion = versionItem ls;
          savedSettings = settingsItem ls;
          truthy = (savedSettings \<noteq> None \<and> savedSettings \<noteq> Some EmptyText);
          parsedSettings =
            (if truthy \<and> savedVersion = Some CURRENT_VERSION
             then (case savedSettings of
                     Some (Encoded s) \<Rightarrow> Inr (s, ls)
                   | _ \<Rightarrow> Inl SyntaxError)
             else Inr (defaultSettings,
                       ls\<lparr> settingsItem := Some (Encoded defaultSettings),
                           versionItem := Some CURRENT_VERSION \<rparr>))
      in case parsedSettings of
           Inl e \<Rightarrow> Inl e
         | Inr (settings0, ls1) \<Rightarrow>
             (let savedProgress = progressItem ls1;
                  progress0 = \<lparr>progressInterval = 1, lastDate = today\<rparr>;
                  parsedProgress =
                    (case savedProgress of
                       None \<Rightarrow> Inr progress0
                     | Some EmptyText \<Rightarrow> Inr progress0
                     | Some Malformed \<Rightarrow> Inl SyntaxError
                     | Some (Encoded p) \<Rightarrow>
                         Inr (if lastDate p = today then p else progress0))
              in case parsedProgress of
                   Inl e \<Rightarrow> Inl e
                 | Inr progress \<Rightarrow>
                     Inr \<lparr> state =
                             \<lparr> timeLeft = workDuration settings0 * 60,
                               isRunning = False,
                               isPaused = False,
                               currentInterval = progressInterval progress,
                               isWorkSession = True,
                               settings = settings0 \<rparr>,
                           startTimeRef = None,
                           lastUpdateRef = None,
                           expectedEndTimeRef = None,
                           storage = ls1,
                           trace = [] \<rparr>))"

section \<open>Operations\<close>

text \<open>
  The visibility handler. A ref holding \<open>null\<close> or \<open>0\<close> is falsy.
\<close>

definition handleVisibilityChange :: "int \<Rightarrow> Engine \<Rightarrow> Engine" where
  "handleVisibilityChange now eng =
     (case expectedEndTimeRef eng of
        None \<Rightarrow> eng
      | Some e \<Rightarrow>
          if \<not> isRunning (state eng) \<or> e = 0 then eng
          else
            (let timeLeft0 = max 0 (ceil_div (e - now) 1000);
                 prev = state eng
             in eng\<lparr> state := (if timeLeft0 \<le> 0 then prev\<lparr>timeLeft := 0\<rparr>
                                else prev\<lparr>timeLeft := timeLeft0\<rparr>),
                     lastUpdateRef := Some now \<rparr>))"

definition mergeSettings :: "TimerSettings \<Rightarrow> PartialSettings \<Rightarrow> TimerSettings" where
  "mergeSettings s p =
     \<lparr> workDuration = (case workDuration_opt p of None \<Rightarrow> workDuration s | Some v \<Rightarrow> v),
       breakDuration = (case breakDuration_opt p of None \<Rightarrow> breakDuration s | Some v \<Rightarrow> v),
       intervals = (case intervals_opt p of None \<Rightarrow> intervals s | Some v \<Rightarrow> v),
       notificationVolume =
         (case notificationVolume_opt p of None \<Rightarrow> notificationVolume s | Some v \<Rightarrow> v),
       notificationSound =
         (case notificationSound_opt p of None \<Rightarrow> notificationSound s | Some v \<Rightarrow> v),
       beepCount = (case beepCount_opt p of None \<Rightarrow> beepCount s | Some v \<Rightarrow> v) \<rparr>"

definition updateSettings :: "PartialSettings \<Rightarrow> Engine \<Rightarrow> Engine" where
  "updateSettings newSettings eng =
     (let prev = state eng;
          updatedSettings = mergeSettings (settings prev) newSettings;
          isCurrentlyRunning = isRunning prev
      in eng\<lparr> storage := (storage eng)
                 \<lparr> settingsItem := Some (Encoded updatedSettings),
                   versionItem := Some CURRENT_VERSION \<rparr>,
              state := prev
                 \<lparr> settings := updatedSettings,
                   timeLeft :=
                     (if \<not> isCurrentlyRunning
                      then (if isWorkSession prev then workDuration updatedSettings
                            else breakDuration updatedSettings) * 60
                      else timeLeft prev) \<rparr> \<rparr>)"

definition startTimer :: "int \<Rightarrow> Engine \<Rightarrow> Engine" where
  "startTimer now eng =
     (let eng1 = requestWakeLock eng
      in eng1\<lparr> startTimeRef := Some now,
               lastUpdateRef := Some now,
               expectedEndTimeRef := Some (now + timeLeft (state eng) * 1000),
               state := (state eng)\<lparr>isRunning := True, isPaused := False\<rparr> \<rparr>)"

definition pauseTimer :: "Engine \<Rightarrow> Engine" where
  "pauseTimer eng =
     (let eng1 = releaseWakeLock eng
      in eng1\<lparr>state := (state eng)\<lparr>isRunning := False, isPaused := True\<rparr>\<rparr>)"

definition resetTimer :: "string \<Rightarrow> Engine \<Rightarrow> Engine" where
  "resetTimer today eng =
     (let eng1 = releaseWakeLock eng;
          eng2 = eng1\<lparr>startTimeRef := None, lastUpdateRef := None, expectedEndTimeRef := None\<rparr>;
          eng3 = saveProgress today 1 eng2;
          prev = state eng
      in eng3\<lparr> state := prev
                 \<lparr> isRunning := False,
                   isPaused := False,
                   currentInterval := 1,
                   timeLeft := (if isWorkSession prev then workDuration (settings prev) * 60
                                else breakDuration (settings prev) * 60) \<rparr> \<rparr>)"

text \<open>
  \<open>resetTimer\<close> of the older copy of the hook (\<open>src/hooks/useTimer.ts\<close>), which has no
  persisted progress.
\<close>

definition resetTimer_hooks :: "Engine \<Rightarrow> Engine" where
  "resetTimer_hooks eng =
     (let eng1 = releaseWakeLock eng;
          eng2 = eng1\<lparr>startTimeRef := None, lastUpdateRef := None, expectedEndTimeRef := None\<rparr>;
          prev = state eng
      in eng2\<lparr> state := prev
                 \<lparr> isRunning := False,
                   isPaused := False,
                   timeLeft := (if isWorkSession prev then workDuration (settings prev) * 60
                                else breakDuration (settings prev) * 60) \<rparr> \<rparr>)"

definition skipSession :: "string \<Rightarrow> Engine \<Rightarrow> Engine" where
  "skipSession today eng =
     (let prev = state eng;
          totalSessions = intervals (settings prev) * 2;
          isLastSession = (currentInterval prev = totalSessions)
      in if isLastSession then
           (let eng1 = releaseWakeLock eng;
                eng2 = showNotification ''Pomodoro Complete!''
                         ''All work sessions completed. Great job!'' eng1;
                eng3 = saveProgress today totalSessions eng2
            in eng3\<lparr> state := prev
                       \<lparr> isRunning := False,
                         isPaused := False,
                         currentInterval := 1,
                         isWorkSession := True,
                         timeLeft := workDuration (settings prev) * 60 \<rparr> \<rparr>)
         else
           (let nextIsWork = (\<not> isWorkSession prev);
                nextInterval = (if nextIsWork then currentInterval prev + 1
                                else currentInterval prev);
                nextDuration = (if nextIsWork then workDuration (settings prev)
                                else breakDuration (settings prev));
                eng1 = (if nextIsWork then saveProgress today nextInterval eng else eng)
            in eng1\<lparr> state := prev
                       \<lparr> isWorkSession := nextIsWork,
                         currentInterval := nextInterval,
                         timeLeft := nextDuration * 60 \<rparr> \<rparr>))"

text \<open>
  \<open>updateTimer\<close>, the tick of the scheduler. The function it passes to \<open>setState\<close> is run
  once, on the current state, as React runs it in a production build (the second,
  development-only run of an updater under Strict Mode is not part of the model).
\<close>

definition updateTimer :: "int \<Rightarrow> string \<Rightarrow> Engine \<Rightarrow> Engine" where
  "updateTimer now today eng =
     (case expectedEndTimeRef eng of
        None \<Rightarrow> eng
      | Some e \<Rightarrow>
          if e = 0 then eng
          else
            (let timeLeft0 = max 0 (ceil_div (e - now) 1000);
                 eng0 = eng\<lparr>lastUpdateRef := Some now\<rparr>;
                 prev = state eng
             in if timeLeft0 \<le> 0 then
                  (let totalSessions = intervals (settings prev) * 2;
                       isLastSession = (currentInterval prev = totalSessions)
                   in if isLastSession then
                        (let eng1 = releaseWakeLock eng0;
                             eng2 = eng1\<lparr>expectedEndTimeRef := None\<rparr>;
                             eng3 = showNotification ''Pomodoro Complete!''
                                      ''All work sessions completed. Great job!'' eng2;
                             eng4 = saveProgress today totalSessions eng3
                         in eng4\<lparr> state := prev
                                    \<lparr> isRunning := False,
                                      isPaused := False,
                                      currentInterval := 1,
                                      isWorkSession := True,
                                      timeLeft := workDuration (settings prev) * 60 \<rparr> \<rparr>)
                      else
                        (let nextIsWork = (\<not> isWorkSession prev);
                             nextInterval = (if nextIsWork then currentInterval prev + 1
                                             else currentInterval prev);
                             nextDuration = (if nextIsWork then workDuration (settings prev)
                                             else breakDuration (settings prev));
                             eng1 = eng0\<lparr>expectedEndTimeRef :=
                                           Some (now + nextDuration * 60 * 1000)\<rparr>;
                             eng2 = (if nextIsWork then saveProgress today nextInterval eng1
                                     else eng1);
                             eng3 = showNotification
                                      (if nextIsWork then ''Work Time!'' else ''Break Time!'')
                                      (if nextIsWork
                                       then ''Starting work session ''
                                            @ string_of_int (ceil_div nextInterval 2)
                                            @ '' of ''
                                            @ string_of_int (intervals (settings prev))
                                       else ''Take a ''
                                            @ string_of_int (breakDuration (settings prev))
                                            @ '' minute break'')
                                      eng2
                         in eng3\<lparr> state := prev
                                    \<lparr> isWorkSession := nextIsWork,
                                      currentInterval := nextInterval,
                                      timeLeft := nextDuration * 60 \<rparr> \<rparr>))
                else eng0\<lparr>state := prev\<lparr>timeLeft := timeLeft0\<rparr>\<rparr>))"

section \<open>Observations on the call trace\<close>

definition isNotification :: "call \<Rightarrow> bool" where
  "isNotification c = (case c of ShowNotification _ _ \<Rightarrow> True | _ \<Rightarrow> False)"

definition isProgressWrite :: "call \<Rightarrow> bool" where
  "isProgressWrite c = (case c of SaveProgress _ \<Rightarrow> True | _ \<Rightarrow> False)"

definition notificationCount :: "call list \<Rightarrow> nat" where
  "notificationCount cs = length (filter isNotification cs)"

definition progressWriteCount :: "call list \<Rightarrow> nat" where
  "progressWriteCount cs = length (filter isProgressWrite cs)"

section \<open>Concrete inputs\<close>

definition today0 :: string where
  "today0 = ''Mon Nov 02 2026''"

definition settings_25_5_4 :: TimerSettings where
  "settings_25_5_4 =
     \<lparr> workDuration = 25, breakDuration = 5, intervals = 4,
       notificationVolume = 50, notificationSound = ''bell'', beepCount = 3 \<rparr>"

definition storage_25_5_4 :: LocalStorage where
  "storage_25_5_4 =
     \<lparr> settingsItem = Some (Encoded settings_25_5_4),
       versionItem = Some ''2.0'',
       progressItem = None \<rparr>"

text \<open>
  The instance constructed from \<open>storage_25_5_4\<close> (lemma \<open>init_25_5_4\<close> below).
\<close>

definition engine_25_5_4 :: Engine where
  "engine_25_5_4 =
     \<lparr> state = \<lparr> timeLeft = 1500, isRunning = False, isPaused = False,
                 currentInterval = 1, isWorkSession = True, settings = settings_25_5_4 \<rparr>,
       startTimeRef = None, lastUpdateRef = None, expectedEndTimeRef = None,
       storage = storage_25_5_4, trace = [] \<rparr>"

text \<open>
  Stores found at load time: a same-day progress entry with index 8; a progress entry
  that is not JSON; a settings entry that is not JSON under the current version tag; and
  a settings entry that is not JSON under an old version tag, with an empty progress
  entry.
\<close>

definition storage_progress_8 :: LocalStorage where
  "storage_progress_8 =
     \<lparr> settingsItem = Some (Encoded settings_25_5_4),
       versionItem = Some ''2.0'',
       progressItem = Some (Encoded \<lparr>progressInterval = 8, lastDate = today0\<rparr>) \<rparr>"

definition storage_malformed_progress :: LocalStorage where
  "storage_malformed_progress =
     \<lparr> settingsItem = None, versionItem = None, progressItem = Some Malformed \<rparr>"

definition storage_malformed_settings :: LocalStorage where
  "storage_malformed_settings =
     \<lparr> settingsItem = Some Malformed, versionItem = Some ''2.0'', progressItem = None \<rparr>"

definition storage_old_version :: LocalStorage where
  "storage_old_version =
     \<lparr> settingsItem = Some Malformed, versionItem = Some ''1.0'',
       progressItem = Some EmptyText \<rparr>"

text \<open>
  The instance constructed from \<open>storage_progress_8\<close> (lemma \<open>init_progress_8\<close> below): it
  is on the last session index of its cycle.
\<close>

definition engine_progress_8 :: Engine where
  "engine_progress_8 =
     \<lparr> state = \<lparr> timeLeft = 1500, isRunning = False, isPaused = False,
                 currentInterval = 8, isWorkSession = True, settings = settings_25_5_4 \<rparr>,
       startTimeRef = None, lastUpdateRef = None, expectedEndTimeRef = None,
       storage = storage_progress_8, trace = [] \<rparr>"

text \<open>
  The argument of \<open>updateSettings({workDuration: 30})\<close>.
\<close>

definition workDuration_30 :: PartialSettings where
  "workDuration_30 =
     \<lparr> workDuration_opt = Some 30, breakDuration_opt = None, intervals_opt = None,
       notificationVolume_opt = None, notificationSound_opt = None, beepCount_opt = None \<rparr>"

text \<open>
  A tick of the scheduler at the very millisecond the running session expires.
\<close>

definition tickAtExpiry :: "string \<Rightarrow> Engine \<Rightarrow> Engine" where
  "tickAtExpiry today eng =
     (case expectedEndTimeRef eng of None \<Rightarrow> eng | Some e \<Rightarrow> updateTimer e today eng)"

section \<open>Basic facts\<close>

lemma init_25_5_4: "useTimer_init storage_25_5_4 today0 = Inr engine_25_5_4"
  by (simp add: useTimer_init_def storage_25_5_4_def engine_25_5_4_def settings_25_5_4_def
      CURRENT_VERSION_def)

lemma init_progress_8: "useTimer_init storage_progress_8 today0 = Inr engine_progress_8"
  by (simp add: useTimer_init_def storage_progress_8_def engine_progress_8_def
      settings_25_5_4_def CURRENT_VERSION_def)

lemma ceil_div_nonpos_iff: "ceil_div a 1000 \<le> 0 \<longleftrightarrow> a \<le> 0"
  unfolding ceil_div_def by linarith

lemma ceil_div_seconds: "ceil_div (d * 60 * 1000) 1000 = d * 60"
  unfolding ceil_div_def by simp

section \<open>Updating the settings\<close>

text \<open>
  C6. \<open>updateSettings\<close> merges its argument into the settings: a field the argument gives
  takes the given value, any other keeps its own; it stores the merged settings with
  the current version tag. When the timer is not running, the remaining seconds are
  recomputed from the merged settings, as the full duration of the current session kind
  (the work duration on a work session, the break duration on a break); when the timer
  is running they are left as they are. The session index, the session kind and the
  running and paused flags are never touched. In particular
  \<open>updateSettings({workDuration: 30})\<close> makes the work duration 30, sets the remaining
  seconds to 1800 when the timer is not running and the current session is a work
  session, and leaves them unchanged while the timer is running.
\<close>

theorem C6_updateSettings_timeLeft:
  "settings (state (updateSettings p eng)) = mergeSettings (settings (state eng)) p
   \<and> workDuration (settings (state (updateSettings p eng)))
       = (case workDuration_opt p of None \<Rightarrow> workDuration (settings (state eng))
          | Some v \<Rightarrow> v)
   \<and> breakDuration (settings (state (updateSettings p eng)))
       = (case breakDuration_opt p of None \<Rightarrow> breakDuration (settings (state eng))
          | Some v \<Rightarrow> v)
   \<and> intervals (settings (state (updateSettings p eng)))
       = (case intervals_opt p of None \<Rightarrow> intervals (settings (state eng)) | Some v \<Rightarrow> v)
   \<and> settingsItem (storage (updateSettings p eng))
       = Some (Encoded (settings (state (updateSettings p eng))))
   \<and> versionItem (storage (updateSettings p eng)) = Some CURRENT_VERSION
   \<and> (\<not> isRunning (state eng) \<longrightarrow>
         timeLeft (state (updateSettings p eng))
           = (if isWorkSession (state eng)
              then workDuration (settings (state (updateSettings p eng)))
              else breakDuration (settings (state (updateSettings p eng)))) * 60)
   \<and> (isRunning (state eng) \<longrightarrow>
         timeLeft (state (updateSettings p eng)) = timeLeft (state eng))
   \<and> currentInterval (state (updateSettings p eng)) = currentInterval (state eng)
   \<and> isWorkSession (state (updateSettings p eng)) = isWorkSession (state eng)
   \<and> isRunning (state (updateSettings p eng)) = isRunning (state eng)
   \<and> isPaused (state (updateSettings p eng)) = isPaused (state eng)
   \<and> workDuration (settings (state (updateSettings workDuration_30 eng))) = 30
   \<and> breakDuration (settings (state (updateSettings workDuration_30 eng)))
       = breakDuration (settings (state eng))
   \<and> (\<not> isRunning (state eng) \<and> isWorkSession (state eng)
        \<longrightarrow> timeLeft (state (updateSettings workDuration_30 eng)) = 1800)
   \<and> (isRunning (state eng)
        \<longrightarrow> timeLeft (state (updateSettings workDuration_30 eng)) = timeLeft (state eng))"
  by (simp add: workDuration_30_def updateSettings_def mergeSettings_def Let_def)

theorem C6_updateSettings_timeLeft_witness:
  "timeLeft (state (updateSettings workDuration_30 engine_25_5_4)) = 1800
   \<and> workDuration (settings (state (updateSettings workDuration_30 engine_25_5_4))) = 30
   \<and> timeLeft (state (updateSettings workDuration_30 (startTimer 1000 engine_25_5_4))) = 1500
   \<and> workDuration (settings (state (updateSettings workDuration_30
        (startTimer 1000 engine_25_5_4)))) = 30
   \<and> timeLeft (state (updateSettings workDuration_30 (skipSession today0 engine_25_5_4))) = 300"
proof -
  let ?idle = "engine_25_5_4"
  let ?running = "startTimer 1000 engine_25_5_4"
  let ?onBreak = "skipSession today0 engine_25_5_4"
  have idle: "\<not> isRunning (state ?idle) \<and> isWorkSession (state ?idle)"
    by (simp add: engine_25_5_4_def)
  have running: "isRunning (state ?running) \<and> timeLeft (state ?running) = 1500"
    by (simp add: startTimer_def requestWakeLock_def engine_25_5_4_def Let_def)
  have onBreak: "\<not> isRunning (state ?onBreak) \<and> \<not> isWorkSession (state ?onBreak)
                 \<and> breakDuration (settings (state ?onBreak)) = 5"
    by (simp add: skipSession_def engine_25_5_4_def settings_25_5_4_def Let_def)
  note at_idle = C6_updateSettings_timeLeft [of workDuration_30 ?idle]
  note at_running = C6_updateSettings_timeLeft [of workDuration_30 ?running]
  note at_break = C6_updateSettings_timeLeft [of workDuration_30 ?onBreak]
  from at_idle idle
  have one: "timeLeft (state (updateSettings workDuration_30 ?idle)) = 1800
             \<and> workDuration (settings (state (updateSettings workDuration_30 ?idle))) = 30"
    by blast
  from at_running running
  have two: "timeLeft (state (updateSettings workDuration_30 ?running)) = 1500
             \<and> workDuration (settings (state (updateSettings workDuration_30 ?running))) = 30"
    by auto
  from at_break onBreak
  have three: "timeLeft (state (updateSettings workDuration_30 ?onBreak)) = 300"
    by auto
  from one two three show ?thesis by blast
qed

section \<open>Pausing and resetting\<close>

text \<open>
  C9, as the code has it. \<open>pauseTimer\<close> has no guard on the status. Called while the timer
  is not running, it leaves the remaining seconds, the session index, the session kind
  and the settings as they are and the timer stopped, and it sets \<open>isPaused\<close>: the status
  afterwards is Paused, also when it was Idle before.
\<close>

theorem C9_pause_not_running:
  "status (state eng) \<noteq> Running \<Longrightarrow>
     timeLeft (state (pauseTimer eng)) = timeLeft (state eng)
     \<and> currentInterval (state (pauseTimer eng)) = currentInterval (state eng)
     \<and> isWorkSession (state (pauseTimer eng)) = isWorkSession (state eng)
     \<and> settings (state (pauseTimer eng)) = settings (state eng)
     \<and> status (state (pauseTimer eng)) = Paused"
  by (simp add: pauseTimer_def releaseWakeLock_def status_def)

theorem C9_pause_not_running_witness:
  "status (state engine_25_5_4) \<noteq> Running
   \<and> timeLeft (state (pauseTimer engine_25_5_4)) = 1500
   \<and> currentInterval (state (pauseTimer engine_25_5_4)) = 1
   \<and> isWorkSession (state (pauseTimer engine_25_5_4))
   \<and> status (state (pauseTimer engine_25_5_4)) = Paused"
proof -
  have idle: "status (state engine_25_5_4) \<noteq> Running"
    by (simp add: status_def engine_25_5_4_def)
  from C9_pause_not_running [OF idle] idle show ?thesis
    by (simp add: engine_25_5_4_def)
qed

text \<open>
  C9, as the claim words it, fails on the freshly constructed instance: its status is
  Idle, and after \<open>pauseTimer\<close> it is Paused.
\<close>

theorem C9_pause_from_idle_counterexample:
  "status (state engine_25_5_4) = Idle
   \<and> status (state (pauseTimer engine_25_5_4)) \<noteq> status (state engine_25_5_4)"
  by (simp add: status_def engine_25_5_4_def pauseTimer_def releaseWakeLock_def)

text \<open>
  C3, as the code has it. \<open>resetTimer\<close>, from any state, sets the session index to 1 and
  the status to Idle, stores progress index 1 under today's date, and leaves the
  settings and the session kind as they are; the remaining seconds become the full
  duration of the current session kind (the work duration on a work session, the break
  duration on a break). The older copy of the hook does the same to the status, the
  settings, the session kind and the remaining seconds, and leaves the session index and
  the store alone.
\<close>

theorem C3_reset:
  "currentInterval (state (resetTimer today eng)) = 1
   \<and> status (state (resetTimer today eng)) = Idle
   \<and> progressItem (storage (resetTimer today eng))
       = Some (Encoded \<lparr>progressInterval = 1, lastDate = today\<rparr>)
   \<and> settings (state (resetTimer today eng)) = settings (state eng)
   \<and> isWorkSession (state (resetTimer today eng)) = isWorkSession (state eng)
   \<and> timeLeft (state (resetTimer today eng))
       = (if isWorkSession (state eng) then workDuration (settings (state eng))
          else breakDuration (settings (state eng))) * 60
   \<and> status (state (resetTimer_hooks eng)) = Idle
   \<and> settings (state (resetTimer_hooks eng)) = settings (state eng)
   \<and> isWorkSession (state (resetTimer_hooks eng)) = isWorkSession (state eng)
   \<and> timeLeft (state (resetTimer_hooks eng)) = timeLeft (state (resetTimer today eng))
   \<and> currentInterval (state (resetTimer_hooks eng)) = currentInterval (state eng)
   \<and> storage (resetTimer_hooks eng) = storage eng"
  by (simp add: resetTimer_def resetTimer_hooks_def saveProgress_def releaseWakeLock_def
      status_def Let_def)

text \<open>
  C3, as the claim words it, fails when the reset comes during a break: the instance
  stays on the break, with the break's duration on the clock.
\<close>

theorem C3_reset_on_break_counterexample:
  "\<not> isWorkSession (state (resetTimer today0 (tickAtExpiry today0 (startTimer 1000 engine_25_5_4))))
   \<and> timeLeft (state (resetTimer today0 (tickAtExpiry today0 (startTimer 1000 engine_25_5_4)))) = 300
   \<and> workDuration (settings (state (resetTimer today0
        (tickAtExpiry today0 (startTimer 1000 engine_25_5_4))))) * 60 = 1500"
  by (simp add: resetTimer_def saveProgress_def releaseWakeLock_def tickAtExpiry_def
      startTimer_def requestWakeLock_def updateTimer_def showNotification_def
      engine_25_5_4_def settings_25_5_4_def ceil_div_def Let_def)

section \<open>The tick and the visibility handler\<close>

lemma trace_updateTimer_advance:
  assumes "expectedEndTimeRef eng = Some e" "e \<noteq> 0" "e \<le> now"
    and "currentInterval (state eng) \<noteq> intervals (settings (state eng)) * 2"
  shows "\<exists>title body. trace (updateTimer now today eng) =
           trace eng
           @ (if isWorkSession (state eng) then []
              else [SaveProgress (currentInterval (state eng) + 1)])
           @ [ShowNotification title body]"
  using assms
  by (simp add: updateTimer_def Let_def ceil_div_nonpos_iff saveProgress_def
      showNotification_def)

lemma trace_updateTimer_complete:
  assumes "expectedEndTimeRef eng = Some e" "e \<noteq> 0" "e \<le> now"
    and "currentInterval (state eng) = intervals (settings (state eng)) * 2"
  shows "trace (updateTimer now today eng) =
           trace eng
           @ [ReleaseWakeLock,
              ShowNotification ''Pomodoro Complete!'' ''All work sessions completed. Great job!'',
              SaveProgress (intervals (settings (state eng)) * 2)]"
  using assms
  by (simp add: updateTimer_def Let_def ceil_div_nonpos_iff saveProgress_def
      showNotification_def releaseWakeLock_def)

lemma notificationCount_updateTimer:
  assumes "expectedEndTimeRef eng = Some e" "e \<noteq> 0" "e \<le> now"
  shows "notificationCount (trace (updateTimer now today eng))
           = notificationCount (trace eng) + 1"
proof (cases "currentInterval (state eng) = intervals (settings (state eng)) * 2")
  case True
  from trace_updateTimer_complete [OF assms True] show ?thesis
    by (simp add: notificationCount_def isNotification_def)
next
  case False
  from trace_updateTimer_advance [OF assms False] obtain title body where
    "trace (updateTimer now today eng) =
       trace eng
       @ (if isWorkSession (state eng) then []
          else [SaveProgress (currentInterval (state eng) + 1)])
       @ [ShowNotification title body]"
    by blast
  then show ?thesis
    by (simp add: notificationCount_def isNotification_def)
qed

lemma progressWriteCount_updateTimer:
  assumes "expectedEndTimeRef eng = Some e" "e \<noteq> 0" "e \<le> now"
  shows "progressWriteCount (trace (updateTimer now today eng))
           = progressWriteCount (trace eng)
             + (if isWorkSession (state eng)
                   \<and> currentInterval (state eng) \<noteq> intervals (settings (state eng)) * 2
                then 0 else 1)"
proof (cases "currentInterval (state eng) = intervals (settings (state eng)) * 2")
  case True
  from trace_updateTimer_complete [OF assms True] True show ?thesis
    by (simp add: progressWriteCount_def isProgressWrite_def)
next
  case False
  from trace_updateTimer_advance [OF assms False] obtain title body where
    "trace (updateTimer now today eng) =
       trace eng
       @ (if isWorkSession (state eng) then []
          else [SaveProgress (currentInterval (state eng) + 1)])
       @ [ShowNotification title body]"
    by blast
  with False show ?thesis
    by (simp add: progressWriteCount_def isProgressWrite_def)
qed

text \<open>
  A second tick at the same instant, after a tick that crossed a boundary, changes
  nothing at all: after a completed cycle the target is gone, and after an advance the
  target lies a whole session ahead.
\<close>

lemma updateTimer_twice:
  assumes "0 < workDuration (settings (state eng))"
    and "0 < breakDuration (settings (state eng))"
    and "expectedEndTimeRef eng = Some e" "e \<noteq> 0" "e \<le> now"
  shows "updateTimer now today (updateTimer now today eng) = updateTimer now today eng"
proof (cases "currentInterval (state eng) = intervals (settings (state eng)) * 2")
  case True
  with assms have "expectedEndTimeRef (updateTimer now today eng) = None"
    by (simp add: updateTimer_def Let_def ceil_div_nonpos_iff saveProgress_def
        showNotification_def releaseWakeLock_def)
  then show ?thesis
    by (simp add: updateTimer_def [of now today "updateTimer now today eng"])
next
  case False
  define d where "d = (if isWorkSession (state eng) then breakDuration (settings (state eng))
                       else workDuration (settings (state eng)))"
  define eng' where "eng' = updateTimer now today eng"
  from assms have d_pos: "0 < d"
    by (simp add: d_def)
  from assms False have end': "expectedEndTimeRef eng' = Some (now + d * 60 * 1000)"
    by (simp add: eng'_def d_def updateTimer_def Let_def ceil_div_nonpos_iff saveProgress_def
        showNotification_def)
  from assms False have left': "timeLeft (state eng') = d * 60"
    by (simp add: eng'_def d_def updateTimer_def Let_def ceil_div_nonpos_iff saveProgress_def
        showNotification_def)
  from assms False have last': "lastUpdateRef eng' = Some now"
    by (simp add: eng'_def d_def updateTimer_def Let_def ceil_div_nonpos_iff saveProgress_def
        showNotification_def)
  have "ceil_div (now + d * 60 * 1000 - now) 1000 = d * 60"
    using ceil_div_seconds [of d] by simp
  with d_pos end' left' last' have "updateTimer now today eng' = eng'"
    by (simp add: updateTimer_def [of now today eng'] Let_def)
  then show ?thesis
    by (simp add: eng'_def)
qed

text \<open>
  C5, as the code has it. With positive work and break durations, and a target end-time
  that \<open>now\<close> has reached or passed: a second tick at the same \<open>now\<close> leaves the instance
  exactly as the first tick left it (state, refs, store and call trace), so it triggers
  no side effect. The two ticks together show the notification exactly once; they write
  the progress exactly once when the boundary enters a work session or completes the
  cycle, and not at all when it enters a break.
\<close>

theorem C5_tick_idempotent:
  assumes "0 < workDuration (settings (state eng))"
    and "0 < breakDuration (settings (state eng))"
    and "expectedEndTimeRef eng = Some e" "e \<noteq> 0" "e \<le> now"
  shows "updateTimer now today (updateTimer now today eng) = updateTimer now today eng
       \<and> trace (updateTimer now today (updateTimer now today eng))
           = trace (updateTimer now today eng)
       \<and> notificationCount (trace (updateTimer now today (updateTimer now today eng)))
           = notificationCount (trace eng) + 1
       \<and> progressWriteCount (trace (updateTimer now today (updateTimer now today eng)))
           = progressWriteCount (trace eng)
             + (if isWorkSession (state eng)
                   \<and> currentInterval (state eng) \<noteq> intervals (settings (state eng)) * 2
                then 0 else 1)"
  using updateTimer_twice [OF assms] notificationCount_updateTimer [OF assms(3-5)]
    progressWriteCount_updateTimer [OF assms(3-5)]
  by simp

text \<open>
  Three boundaries of the 25/5/4 instance, each ticked twice at its target: from the
  first work session into the break (one notification, no progress write), from that
  break into the second work session (one more notification, one progress write), and
  the completion of the cycle from session index 8 (one notification, one progress
  write).
\<close>

theorem C5_tick_idempotent_witness:
  "updateTimer 1501000 today0 (updateTimer 1501000 today0 (startTimer 1000 engine_25_5_4))
     = updateTimer 1501000 today0 (startTimer 1000 engine_25_5_4)
   \<and> notificationCount (trace (updateTimer 1501000 today0
         (updateTimer 1501000 today0 (startTimer 1000 engine_25_5_4)))) = 1
   \<and> progressWriteCount (trace (updateTimer 1501000 today0
         (updateTimer 1501000 today0 (startTimer 1000 engine_25_5_4)))) = 0
   \<and> updateTimer 1801000 today0 (updateTimer 1801000 today0
         (updateTimer 1501000 today0 (startTimer 1000 engine_25_5_4)))
     = updateTimer 1801000 today0 (updateTimer 1501000 today0 (startTimer 1000 engine_25_5_4))
   \<and> notificationCount (trace (updateTimer 1801000 today0 (updateTimer 1801000 today0
         (updateTimer 1501000 today0 (startTimer 1000 engine_25_5_4))))) = 2
   \<and> progressWriteCount (trace (updateTimer 1801000 today0 (updateTimer 1801000 today0
         (updateTimer 1501000 today0 (startTimer 1000 engine_25_5_4))))) = 1
   \<and> updateTimer 1501000 today0 (updateTimer 1501000 today0 (startTimer 1000 engine_progress_8))
     = updateTimer 1501000 today0 (startTimer 1000 engine_progress_8)
   \<and> notificationCount (trace (updateTimer 1501000 today0
         (updateTimer 1501000 today0 (startTimer 1000 engine_progress_8)))) = 1
   \<and> progressWriteCount (trace (updateTimer 1501000 today0
         (updateTimer 1501000 today0 (startTimer 1000 engine_progress_8)))) = 1"
proof -
  let ?eng = "startTimer 1000 engine_25_5_4"
  let ?brk = "updateTimer 1501000 today0 (startTimer 1000 engine_25_5_4)"
  let ?fin = "startTimer 1000 engine_progress_8"
  have work: "0 < workDuration (settings (state ?eng))"
    by (simp add: startTimer_def requestWakeLock_def engine_25_5_4_def settings_25_5_4_def
        Let_def)
  have break: "0 < breakDuration (settings (state ?eng))"
    by (simp add: startTimer_def requestWakeLock_def engine_25_5_4_def settings_25_5_4_def
        Let_def)
  have target: "expectedEndTimeRef ?eng = Some 1501000"
    by (simp add: startTimer_def requestWakeLock_def engine_25_5_4_def Let_def)
  have before: "notificationCount (trace ?eng) = 0 \<and> progressWriteCount (trace ?eng) = 0
                \<and> isWorkSession (state ?eng)
                \<and> currentInterval (state ?eng) \<noteq> intervals (settings (state ?eng)) * 2"
    by (simp add: startTimer_def requestWakeLock_def engine_25_5_4_def settings_25_5_4_def
        notificationCount_def progressWriteCount_def isNotification_def isProgressWrite_def
        Let_def)
  from C5_tick_idempotent [OF work break target, of 1501000 today0] before
  have first: "updateTimer 1501000 today0 ?brk = ?brk
               \<and> notificationCount (trace (updateTimer 1501000 today0 ?brk)) = 1
               \<and> progressWriteCount (trace (updateTimer 1501000 today0 ?brk)) = 0"
    by auto
  have brk: "state ?brk = \<lparr> timeLeft = 300, isRunning = True, isPaused = False,
                            currentInterval = 1, isWorkSession = False,
                            settings = settings_25_5_4 \<rparr>
             \<and> expectedEndTimeRef ?brk = Some 1801000"
    by (simp add: updateTimer_def startTimer_def requestWakeLock_def showNotification_def
        engine_25_5_4_def settings_25_5_4_def ceil_div_def Let_def)
  from first have brk_counts: "notificationCount (trace ?brk) = 1
                               \<and> progressWriteCount (trace ?brk) = 0"
    by auto
  from brk have work': "0 < workDuration (settings (state ?brk))"
    and break': "0 < breakDuration (settings (state ?brk))"
    and target': "expectedEndTimeRef ?brk = Some 1801000"
    by (simp_all add: settings_25_5_4_def)
  from C5_tick_idempotent [OF work' break' target', of 1801000 today0] brk brk_counts
  have second: "updateTimer 1801000 today0 (updateTimer 1801000 today0 ?brk)
                  = updateTimer 1801000 today0 ?brk
                \<and> notificationCount (trace (updateTimer 1801000 today0
                      (updateTimer 1801000 today0 ?brk))) = 2
                \<and> progressWriteCount (trace (updateTimer 1801000 today0
                      (updateTimer 1801000 today0 ?brk))) = 1"
    by (auto simp: settings_25_5_4_def)
  have fin: "0 < workDuration (settings (state ?fin))
             \<and> 0 < breakDuration (settings (state ?fin))
             \<and> currentInterval (state ?fin) = intervals (settings (state ?fin)) * 2
             \<and> notificationCount (trace ?fin) = 0 \<and> progressWriteCount (trace ?fin) = 0"
    by (simp add: startTimer_def requestWakeLock_def engine_progress_8_def
        settings_25_5_4_def notificationCount_def progressWriteCount_def isNotification_def
        isProgressWrite_def Let_def)
  have target'': "expectedEndTimeRef ?fin = Some 1501000"
    by (simp add: startTimer_def requestWakeLock_def engine_progress_8_def Let_def)
  from fin have work'': "0 < workDuration (settings (state ?fin))"
    and break'': "0 < breakDuration (settings (state ?fin))"
    by simp_all
  from C5_tick_idempotent [OF work'' break'' target'', of 1501000 today0] fin
  have third: "updateTimer 1501000 today0 (updateTimer 1501000 today0 ?fin)
                 = updateTimer 1501000 today0 ?fin
               \<and> notificationCount (trace (updateTimer 1501000 today0
                     (updateTimer 1501000 today0 ?fin))) = 1
               \<and> progressWriteCount (trace (updateTimer 1501000 today0
                     (updateTimer 1501000 today0 ?fin))) = 1"
    by auto
  from first second third show ?thesis by blast
qed

text \<open>
  C5, as the claim words it, fails on the progress write: the two ticks at the end of
  the first work session of the 25/5/4 instance cross the boundary into the break and
  show one notification, and no progress is written at all, by either of them.
\<close>

theorem C5_no_progress_write_counterexample:
  "expectedEndTimeRef (startTimer 1000 engine_25_5_4) = Some 1501000
   \<and> trace (startTimer 1000 engine_25_5_4) = [RequestWakeLock]
   \<and> trace (updateTimer 1501000 today0 (updateTimer 1501000 today0
        (startTimer 1000 engine_25_5_4)))
     = [RequestWakeLock, ShowNotification ''Break Time!'' ''Take a 5 minute break'']
   \<and> progressWriteCount (trace (updateTimer 1501000 today0 (updateTimer 1501000 today0
        (startTimer 1000 engine_25_5_4)))) = 0
   \<and> progressItem (storage (updateTimer 1501000 today0 (updateTimer 1501000 today0
        (startTimer 1000 engine_25_5_4)))) = None"
  by code_simp

text \<open>
  Why the durations must be positive: with a break of 0 minutes the target after the
  first tick is \<open>now\<close> itself, and the second tick at the same \<open>now\<close> crosses the next
  boundary, with a second notification.
\<close>

lemma updateTimer_twice_zero_break:
  "notificationCount (trace (updateTimer 1501000 today0 (updateTimer 1501000 today0
     (startTimer 1000
        (engine_25_5_4\<lparr>state := (state engine_25_5_4)
           \<lparr>settings := settings_25_5_4\<lparr>breakDuration := 0\<rparr>\<rparr>\<rparr>))))) = 2"
  by code_simp

text \<open>
  C7. When the page becomes visible while the timer is running and the target end-time
  has passed, the visibility handler sets the remaining seconds to 0 and touches nothing
  else but \<open>lastUpdateRef\<close>: the session index, the session kind, the running flag, the
  target, the store and the call trace (no notification, no progress write) are as
  before. The boundary is crossed by the next tick, which does exactly what it would
  have done without the handler, showing its one notification.
\<close>

theorem C7_visibility_resync:
  assumes "isRunning (state eng)"
    and "expectedEndTimeRef eng = Some e" "e \<noteq> 0" "e \<le> now"
  shows "handleVisibilityChange now eng
           = eng\<lparr>state := (state eng)\<lparr>timeLeft := 0\<rparr>, lastUpdateRef := Some now\<rparr>
       \<and> timeLeft (state (handleVisibilityChange now eng)) = 0
       \<and> currentInterval (state (handleVisibilityChange now eng)) = currentInterval (state eng)
       \<and> isWorkSession (state (handleVisibilityChange now eng)) = isWorkSession (state eng)
       \<and> isRunning (state (handleVisibilityChange now eng))
       \<and> trace (handleVisibilityChange now eng) = trace eng
       \<and> storage (handleVisibilityChange now eng) = storage eng
       \<and> expectedEndTimeRef (handleVisibilityChange now eng) = Some e
       \<and> updateTimer now today (handleVisibilityChange now eng) = updateTimer now today eng
       \<and> notificationCount (trace (updateTimer now today (handleVisibilityChange now eng)))
           = notificationCount (trace eng) + 1"
proof -
  have resync: "handleVisibilityChange now eng
                  = eng\<lparr>state := (state eng)\<lparr>timeLeft := 0\<rparr>, lastUpdateRef := Some now\<rparr>"
    using assms by (simp add: handleVisibilityChange_def Let_def ceil_div_nonpos_iff)
  have tick: "updateTimer now today (handleVisibilityChange now eng) = updateTimer now today eng"
    using assms unfolding resync
    by (simp add: updateTimer_def Let_def ceil_div_nonpos_iff saveProgress_def
        showNotification_def releaseWakeLock_def)
  from resync tick assms notificationCount_updateTimer [OF assms(2-4), of today]
  show ?thesis by simp
qed

theorem C7_visibility_resync_witness:
  "timeLeft (state (handleVisibilityChange 1600000 (startTimer 1000 engine_25_5_4))) = 0
   \<and> currentInterval (state (handleVisibilityChange 1600000 (startTimer 1000 engine_25_5_4))) = 1
   \<and> isWorkSession (state (handleVisibilityChange 1600000 (startTimer 1000 engine_25_5_4)))
   \<and> trace (handleVisibilityChange 1600000 (startTimer 1000 engine_25_5_4)) = [RequestWakeLock]
   \<and> notificationCount (trace (updateTimer 1600000 today0
        (handleVisibilityChange 1600000 (startTimer 1000 engine_25_5_4)))) = 1"
proof -
  let ?eng = "startTimer 1000 engine_25_5_4"
  have running: "isRunning (state ?eng)"
    by (simp add: startTimer_def requestWakeLock_def Let_def)
  have target: "expectedEndTimeRef ?eng = Some 1501000"
    by (simp add: startTimer_def requestWakeLock_def engine_25_5_4_def Let_def)
  have before: "currentInterval (state ?eng) = 1 \<and> isWorkSession (state ?eng)
                \<and> trace ?eng = [RequestWakeLock] \<and> notificationCount (trace ?eng) = 0"
    by (simp add: startTimer_def requestWakeLock_def engine_25_5_4_def notificationCount_def
        isNotification_def Let_def)
  from C7_visibility_resync [OF running target, of 1600000 today0] before
  show ?thesis by auto
qed

section \<open>Construction from the store\<close>

text \<open>
  C10. Every instance that construction returns is on a work session with the full work
  duration on the clock and is Idle, whatever progress index was restored; a progress
  entry of today (even, or equal to twice the interval count, as it may be) gives the
  session index it holds.
\<close>

theorem C10_fresh_state:
  "useTimer_init ls today = Inr eng \<Longrightarrow>
     isWorkSession (state eng)
     \<and> timeLeft (state eng) = workDuration (settings (state eng)) * 60
     \<and> status (state eng) = Idle
     \<and> (\<forall>p. progressItem ls = Some (Encoded p) \<and> lastDate p = today
             \<longrightarrow> currentInterval (state eng) = progressInterval p)"
  by (auto simp: useTimer_init_def Let_def status_def
      split: if_splits option.splits item.splits sum.splits)

theorem C10_fresh_state_witness:
  "\<exists>eng. useTimer_init storage_progress_8 today0 = Inr eng
         \<and> isWorkSession (state eng)
         \<and> timeLeft (state eng) = 1500
         \<and> currentInterval (state eng) = 8
         \<and> intervals (settings (state eng)) * 2 = 8"
proof -
  obtain eng where init: "useTimer_init storage_progress_8 today0 = Inr eng"
    and cfg: "settings (state eng) = settings_25_5_4"
    by (simp add: useTimer_init_def storage_progress_8_def CURRENT_VERSION_def Let_def)
  have entry: "progressItem storage_progress_8
                 = Some (Encoded \<lparr>progressInterval = 8, lastDate = today0\<rparr>)"
    by (simp add: storage_progress_8_def)
  from C10_fresh_state [OF init] entry cfg
  have "isWorkSession (state eng) \<and> timeLeft (state eng) = 1500
        \<and> currentInterval (state eng) = 8 \<and> intervals (settings (state eng)) * 2 = 8"
    by (simp add: settings_25_5_4_def)
  with init show ?thesis by blast
qed

text \<open>
  C8, as the code has it. Construction raises the \<open>SyntaxError\<close> of \<open>JSON.parse\<close> exactly
  when the progress entry is a non-empty text that is not JSON, or the settings entry is
  such a text and the version tag is the current one. Otherwise it returns an instance:
  with the built-in default settings when the settings entry is missing or empty or the
  version tag is not the current one (whatever the settings text), and with session
  index 1 when the progress entry is missing, empty or of another day.
\<close>

theorem C8_construction:
  "(useTimer_init ls today = Inl SyntaxError
      \<longleftrightarrow> (settingsItem ls = Some Malformed \<and> versionItem ls = Some CURRENT_VERSION)
          \<or> progressItem ls = Some Malformed)
   \<and> (\<forall>eng. useTimer_init ls today = Inr eng \<longrightarrow>
         ((settingsItem ls = None \<or> settingsItem ls = Some EmptyText
             \<or> versionItem ls \<noteq> Some CURRENT_VERSION)
            \<longrightarrow> settings (state eng) = defaultSettings)
         \<and> ((progressItem ls = None \<or> progressItem ls = Some EmptyText
               \<or> (\<exists>p. progressItem ls = Some (Encoded p) \<and> lastDate p \<noteq> today))
              \<longrightarrow> currentInterval (state eng) = 1))"
  by (auto simp: useTimer_init_def Let_def
      split: if_splits option.splits item.splits sum.splits)

theorem C8_construction_witness:
  "\<exists>eng. useTimer_init storage_old_version today0 = Inr eng
         \<and> settings (state eng) = defaultSettings
         \<and> currentInterval (state eng) = 1"
proof -
  have tag: "versionItem storage_old_version \<noteq> Some CURRENT_VERSION"
    by (simp add: storage_old_version_def CURRENT_VERSION_def)
  have entry: "progressItem storage_old_version = Some EmptyText"
    by (simp add: storage_old_version_def)
  note facts = C8_construction [of storage_old_version today0]
  from facts tag entry have "useTimer_init storage_old_version today0 \<noteq> Inl SyntaxError"
    by simp
  then obtain eng where init: "useTimer_init storage_old_version today0 = Inr eng"
    by (cases "useTimer_init storage_old_version today0") (auto intro: error.exhaust)
  from facts init tag entry
  have "settings (state eng) = defaultSettings \<and> currentInterval (state eng) = 1"
    by simp
  with init show ?thesis by blast
qed

text \<open>
  C8, as the claim words it, fails: a progress entry that is not JSON makes construction
  raise, and so does a settings entry that is not JSON under the current version tag.
\<close>

theorem C8_malformed_json_counterexample:
  "useTimer_init storage_malformed_progress today0 = Inl SyntaxError
   \<and> useTimer_init storage_malformed_settings today0 = Inl SyntaxError"
  by (simp add: useTimer_init_def storage_malformed_progress_def
      storage_malformed_settings_def CURRENT_VERSION_def Let_def)

section \<open>Session indexing over a cycle\<close>

text \<open>
  What does hold of the completion branch: a tick at or after the target, in a state
  whose session index equals twice the interval count, stops the timer and puts the
  instance back on the first work session.
\<close>

lemma updateTimer_completion:
  assumes "expectedEndTimeRef eng = Some e" "e \<noteq> 0" "e \<le> now"
    and "currentInterval (state eng) = intervals (settings (state eng)) * 2"
  shows "state (updateTimer now today eng)
           = (state eng)\<lparr> isRunning := False, isPaused := False, currentInterval := 1,
                           isWorkSession := True,
                           timeLeft := workDuration (settings (state eng)) * 60 \<rparr>"
  using assms
  by (simp add: updateTimer_def Let_def ceil_div_nonpos_iff saveProgress_def
      showNotification_def releaseWakeLock_def)

text \<open>
  The advance branch steps the session index only on entering a work session.
\<close>

lemma updateTimer_advance:
  assumes "expectedEndTimeRef eng = Some e" "e \<noteq> 0" "e \<le> now"
    and "currentInterval (state eng) \<noteq> intervals (settings (state eng)) * 2"
  shows "currentInterval (state (updateTimer now today eng))
           = (if isWorkSession (state eng) then currentInterval (state eng)
              else currentInterval (state eng) + 1)
       \<and> isWorkSession (state (updateTimer now today eng)) = (\<not> isWorkSession (state eng))"
  using assms
  by (simp add: updateTimer_def Let_def ceil_div_nonpos_iff saveProgress_def
      showNotification_def)

text \<open>
  One tick at the moment of expiry, read off the React state and the target alone.
\<close>

lemma tickAtExpiry_step:
  assumes "expectedEndTimeRef eng = Some e" "e \<noteq> 0"
  shows "state (tickAtExpiry today eng)
           = (if currentInterval (state eng) = intervals (settings (state eng)) * 2
              then (state eng)\<lparr> isRunning := False, isPaused := False, currentInterval := 1,
                                isWorkSession := True,
                                timeLeft := workDuration (settings (state eng)) * 60 \<rparr>
              else (state eng)\<lparr> isWorkSession := \<not> isWorkSession (state eng),
                                currentInterval :=
                                  (if isWorkSession (state eng) then currentInterval (state eng)
                                   else currentInterval (state eng) + 1),
                                timeLeft :=
                                  (if isWorkSession (state eng)
                                   then breakDuration (settings (state eng))
                                   else workDuration (settings (state eng))) * 60 \<rparr>)"
    and "expectedEndTimeRef (tickAtExpiry today eng)
           = (if currentInterval (state eng) = intervals (settings (state eng)) * 2 then None
              else Some (e + (if isWorkSession (state eng)
                              then breakDuration (settings (state eng))
                              else workDuration (settings (state eng))) * 60 * 1000))"
  using assms
  by (simp_all add: tickAtExpiry_def updateTimer_def Let_def ceil_div_def saveProgress_def
      showNotification_def releaseWakeLock_def)

lemma tickAtExpiry_last_call:
  assumes "expectedEndTimeRef eng = Some e" "e \<noteq> 0"
  shows "last (trace (tickAtExpiry today eng))
           = (if currentInterval (state eng) = intervals (settings (state eng)) * 2
              then SaveProgress (intervals (settings (state eng)) * 2)
              else if isWorkSession (state eng)
              then ShowNotification ''Break Time!''
                     (''Take a '' @ string_of_int (breakDuration (settings (state eng)))
                      @ '' minute break'')
              else ShowNotification ''Work Time!''
                     (''Starting work session ''
                      @ string_of_int (ceil_div (currentInterval (state eng) + 1) 2)
                      @ '' of '' @ string_of_int (intervals (settings (state eng)))))"
  using assms
  by (simp add: tickAtExpiry_def updateTimer_def Let_def ceil_div_def saveProgress_def
      showNotification_def releaseWakeLock_def)

text \<open>
  The run of the 25/5/4 instance through its first fourteen expiries: work and break
  alternate, and the session index is the number of the work session.
\<close>

lemma run_25_5_4:
  "n \<le> 14 \<Longrightarrow>
     state ((tickAtExpiry today0 ^^ n) (startTimer 1000 engine_25_5_4))
       = \<lparr> timeLeft = (if even n then 1500 else 300), isRunning = True, isPaused = False,
           currentInterval = int (n div 2) + 1, isWorkSession = even n,
           settings = settings_25_5_4 \<rparr>
     \<and> (\<exists>e. 0 < e \<and> expectedEndTimeRef ((tickAtExpiry today0 ^^ n)
                        (startTimer 1000 engine_25_5_4)) = Some e)"
proof (induction n)
  case 0
  show ?case
    by (simp add: startTimer_def requestWakeLock_def engine_25_5_4_def Let_def)
next
  case (Suc n)
  let ?eng = "(tickAtExpiry today0 ^^ n) (startTimer 1000 engine_25_5_4)"
  from Suc have n: "n \<le> 13" by simp
  with Suc.IH obtain e where
    st: "state ?eng = \<lparr> timeLeft = (if even n then 1500 else 300), isRunning = True,
                        isPaused = False, currentInterval = int (n div 2) + 1,
                        isWorkSession = even n, settings = settings_25_5_4 \<rparr>"
    and e: "0 < e" "expectedEndTimeRef ?eng = Some e"
    by auto
  from e have e0: "e \<noteq> 0" by simp
  from n have idx: "int (n div 2) + 1 \<noteq> 8" by linarith
  have nxt: "int (Suc n div 2) = (if even n then int (n div 2) else int (n div 2) + 1)"
    by (cases "even n") (auto elim: oddE)
  from tickAtExpiry_step(1) [OF e(2) e0, of today0] st idx nxt
  have "state (tickAtExpiry today0 ?eng)
          = \<lparr> timeLeft = (if even (Suc n) then 1500 else 300), isRunning = True,
              isPaused = False, currentInterval = int (Suc n div 2) + 1,
              isWorkSession = even (Suc n), settings = settings_25_5_4 \<rparr>"
    by (simp add: settings_25_5_4_def)
  moreover
  from tickAtExpiry_step(2) [OF e(2) e0, of today0] st idx e(1)
  have "\<exists>e'. 0 < e' \<and> expectedEndTimeRef (tickAtExpiry today0 ?eng) = Some e'"
    by (simp add: settings_25_5_4_def)
  ultimately show ?case by simp
qed

text \<open>
  C1, on the code. Settings 25/5/4, a fresh instance, started, every session running to
  its end. After seven expiries the eighth session of the run is on: a break, with
  session index 4. Its expiry is no cycle completion: the timer keeps running, on a work
  session with index 5, announced as "work session 3 of 4". The session index reaches 8
  only after fourteen expiries, on a work session, and the cycle completes at the
  fifteenth expiry.
\<close>

theorem C1_eighth_session_expiry:
  "state ((tickAtExpiry today0 ^^ 7) (startTimer 1000 engine_25_5_4))
     = \<lparr> timeLeft = 300, isRunning = True, isPaused = False, currentInterval = 4,
         isWorkSession = False, settings = settings_25_5_4 \<rparr>
   \<and> state ((tickAtExpiry today0 ^^ 8) (startTimer 1000 engine_25_5_4))
     = \<lparr> timeLeft = 1500, isRunning = True, isPaused = False, currentInterval = 5,
         isWorkSession = True, settings = settings_25_5_4 \<rparr>
   \<and> last (trace ((tickAtExpiry today0 ^^ 8) (startTimer 1000 engine_25_5_4)))
     = ShowNotification ''Work Time!'' ''Starting work session 3 of 4''
   \<and> state ((tickAtExpiry today0 ^^ 14) (startTimer 1000 engine_25_5_4))
     = \<lparr> timeLeft = 1500, isRunning = True, isPaused = False, currentInterval = 8,
         isWorkSession = True, settings = settings_25_5_4 \<rparr>
   \<and> state ((tickAtExpiry today0 ^^ 15) (startTimer 1000 engine_25_5_4))
     = \<lparr> timeLeft = 1500, isRunning = False, isPaused = False, currentInterval = 1,
         isWorkSession = True, settings = settings_25_5_4 \<rparr>
   \<and> last (trace ((tickAtExpiry today0 ^^ 15) (startTimer 1000 engine_25_5_4)))
     = SaveProgress 8"
proof -
  let ?run = "\<lambda>n. (tickAtExpiry today0 ^^ n) (startTimer 1000 engine_25_5_4)"
  have s7: "state (?run 7)
              = \<lparr> timeLeft = 300, isRunning = True, isPaused = False, currentInterval = 4,
                  isWorkSession = False, settings = settings_25_5_4 \<rparr>"
    using run_25_5_4 [of 7] by simp
  have s8: "state (?run 8)
              = \<lparr> timeLeft = 1500, isRunning = True, isPaused = False, currentInterval = 5,
                  isWorkSession = True, settings = settings_25_5_4 \<rparr>"
    using run_25_5_4 [of 8] by simp
  have s14: "state (?run 14)
               = \<lparr> timeLeft = 1500, isRunning = True, isPaused = False, currentInterval = 8,
                   isWorkSession = True, settings = settings_25_5_4 \<rparr>"
    using run_25_5_4 [of 14] by simp
  obtain e7 where e7: "e7 \<noteq> 0" "expectedEndTimeRef (?run 7) = Some e7"
    using run_25_5_4 [of 7] by auto
  obtain e14 where e14: "e14 \<noteq> 0" "expectedEndTimeRef (?run 14) = Some e14"
    using run_25_5_4 [of 14] by auto
  have u8: "?run 8 = tickAtExpiry today0 (?run 7)"
    by (simp add: eval_nat_numeral)
  have u15: "?run 15 = tickAtExpiry today0 (?run 14)"
    by (simp add: eval_nat_numeral)
  have text3: "string_of_int (ceil_div 5 2) = ''3''" and text4: "string_of_int 4 = ''4''"
    by code_simp+
  have c8: "last (trace (?run 8)) = ShowNotification ''Work Time!'' ''Starting work session 3 of 4''"
    unfolding u8 using tickAtExpiry_last_call [OF e7(2) e7(1), of today0] s7 text3 text4
    by (simp add: settings_25_5_4_def)
  have s15: "state (?run 15)
               = \<lparr> timeLeft = 1500, isRunning = False, isPaused = False, currentInterval = 1,
                   isWorkSession = True, settings = settings_25_5_4 \<rparr>"
    unfolding u15 using tickAtExpiry_step(1) [OF e14(2) e14(1), of today0] s14
    by (simp add: settings_25_5_4_def)
  have c15: "last (trace (?run 15)) = SaveProgress 8"
    unfolding u15 using tickAtExpiry_last_call [OF e14(2) e14(1), of today0] s14
    by (simp add: settings_25_5_4_def)
  from s7 s8 c8 s14 s15 c15 show ?thesis by simp
qed

text \<open>
  C2, on the code. The fresh instance is on a work session with index 1. One skip, or
  one expiry, puts it on a break with the index still 1 (odd); the next expiry puts it
  on a work session with index 2 (even).
\<close>

theorem C2_parity_after_first_boundary:
  "isWorkSession (state engine_25_5_4)
   \<and> currentInterval (state engine_25_5_4) = 1
   \<and> \<not> isWorkSession (state (skipSession today0 engine_25_5_4))
   \<and> currentInterval (state (skipSession today0 engine_25_5_4)) = 1
   \<and> \<not> isWorkSession (state (tickAtExpiry today0 (startTimer 1000 engine_25_5_4)))
   \<and> currentInterval (state (tickAtExpiry today0 (startTimer 1000 engine_25_5_4))) = 1
   \<and> isWorkSession (state ((tickAtExpiry today0 ^^ 2) (startTimer 1000 engine_25_5_4)))
   \<and> currentInterval (state ((tickAtExpiry today0 ^^ 2) (startTimer 1000 engine_25_5_4))) = 2"
  by code_simp

section \<open>Skipping a session\<close>

text \<open>
  On a session that is not the last of the cycle, \<open>skipSession\<close> changes the React state
  as the tick's advance branch does, and writes the same progress; it neither touches
  the target end-time nor shows a notification.
\<close>

lemma skipSession_not_last:
  assumes "currentInterval (state eng) \<noteq> intervals (settings (state eng)) * 2"
  shows "expectedEndTimeRef (skipSession today eng) = expectedEndTimeRef eng
       \<and> notificationCount (trace (skipSession today eng)) = notificationCount (trace eng)"
  using assms
  by (simp add: skipSession_def Let_def saveProgress_def notificationCount_def
      isNotification_def)

text \<open>
  C4, on the code. The timer is started at 1000 ms on the first work session of 25
  minutes, so the target is 1501000 ms. A skip and a natural expiry leave the same React
  state (a break of 300 s, index 1, running). But the skip leaves the target at 1501000,
  where the expiry sets it to the break's end, and the skip shows no notification, where
  the expiry shows one. The tick one second after the skip then measures against the old
  target and puts 1499 s on the clock of the five-minute break.
\<close>

theorem C4_skip_keeps_old_target:
  "expectedEndTimeRef (startTimer 1000 engine_25_5_4) = Some 1501000
   \<and> state (skipSession today0 (startTimer 1000 engine_25_5_4))
     = state (tickAtExpiry today0 (startTimer 1000 engine_25_5_4))
   \<and> timeLeft (state (skipSession today0 (startTimer 1000 engine_25_5_4))) = 300
   \<and> expectedEndTimeRef (skipSession today0 (startTimer 1000 engine_25_5_4)) = Some 1501000
   \<and> expectedEndTimeRef (tickAtExpiry today0 (startTimer 1000 engine_25_5_4)) = Some 1801000
   \<and> notificationCount (trace (skipSession today0 (startTimer 1000 engine_25_5_4))) = 0
   \<and> notificationCount (trace (tickAtExpiry today0 (startTimer 1000 engine_25_5_4))) = 1
   \<and> timeLeft (state (updateTimer 2000 today0
        (skipSession today0 (startTimer 1000 engine_25_5_4)))) = 1499"
  by code_simp

end
